theory Spec2Isabelle
  imports Complex_Main
begin

section \<open>JavaScript numbers\<close>

text \<open>
  A JavaScript \<open>number\<close> is an IEEE 754 binary64 value: \<open>Finite x\<close> is the double whose
  value is the real \<open>x\<close>, and the three special values are kept apart. The two zeros are
  one value, \<open>Finite 0\<close>: they are equal under \<open>===\<close> and both falsy.
\<close>

datatype number = Finite real | PosInfinity | NegInfinity | NaN

text \<open>\<open>!x\<close> holds of a number exactly for zero and NaN.\<close>

fun truthy :: "number \<Rightarrow> bool" where
  "truthy (Finite x) = (x \<noteq> 0)"
| "truthy NaN = False"
| "truthy PosInfinity = True"
| "truthy NegInfinity = True"

text \<open>
  Rounding of a real to the nearest double, ties to even, as every arithmetic operation
  of IEEE 754 does with its exact result. The exponent of \<open>x\<close> is that of its binade, but
  not below that of the subnormal numbers; \<open>u\<close> is the distance between neighbouring
  doubles there, and the magnitude is rounded to a multiple of \<open>u\<close>. A magnitude that
  rounds to \<open>2 ^ 1024\<close> or more overflows to an infinity; one that rounds to no multiple
  underflows to zero.
\<close>

definition roundHalfEven :: "real \<Rightarrow> int" where
  "roundHalfEven q =
     (let f = \<lfloor>q\<rfloor>
      in if q - of_int f < 1 / 2 then f
         else if 1 / 2 < q - of_int f then f + 1
         else if even f then f else f + 1)"

definition roundDouble :: "real \<Rightarrow> number" where
  "roundDouble x =
     (if x = 0 then Finite 0
      else (let e = max \<lfloor>log 2 \<bar>x\<bar>\<rfloor> (- 1022);
                u = 2 powr of_int (e - 52);
                m = of_int (roundHalfEven (\<bar>x\<bar> / u)) * u
            in if 2 ^ 1024 \<le> m then (if 0 < x then PosInfinity else NegInfinity)
               else Finite (sgn x * m)))"

text \<open>The operator \<open>*\<close> on numbers.\<close>

fun mul :: "number \<Rightarrow> number \<Rightarrow> number" where
  "mul NaN y = NaN"
| "mul x NaN = NaN"
| "mul (Finite a) (Finite b) = roundDouble (a * b)"
| "mul (Finite a) PosInfinity =
     (if a = 0 then NaN else if 0 < a then PosInfinity else NegInfinity)"
| "mul (Finite a) NegInfinity =
     (if a = 0 then NaN else if 0 < a then NegInfinity else PosInfinity)"
| "mul PosInfinity (Finite b) =
     (if b = 0 then NaN else if 0 < b then PosInfinity else NegInfinity)"
| "mul NegInfinity (Finite b) =
     (if b = 0 then NaN else if 0 < b then NegInfinity else PosInfinity)"
| "mul PosInfinity PosInfinity = PosInfinity"
| "mul PosInfinity NegInfinity = NegInfinity"
| "mul NegInfinity PosInfinity = NegInfinity"
| "mul NegInfinity NegInfinity = PosInfinity"

text \<open>
  Thrown values. \<open>Error m\<close> is \<open>new Error(m)\<close>; \<open>SyntaxError\<close> is the rejection of
  \<open>response.json()\<close> on a body that is not JSON; \<open>RangeError\<close> is what
  \<open>Intl.NumberFormat\<close> throws; \<open>TypeError\<close> is what a property read on a built-in may
  throw.
\<close>

datatype error = Error string | SyntaxError | RangeError | TypeError

text \<open>
  The rates of the data model are positive multipliers.
\<close>

fun positive :: "number \<Rightarrow> bool" where
  "positive (Finite x) = (0 < x)"
| "positive PosInfinity = True"
| "positive NegInfinity = False"
| "positive NaN = False"

section \<open>The provider's responses\<close>

type_synonym ConversionRates = "string \<rightharpoonup> number"

record CurrencyData =
  result :: string
  conversion_rates :: ConversionRates

record CodesData =
  result :: string
  supported_codes :: "(string \<times> string) list"

text \<open>
  What \<open>fetch(url)\<close> does is the environment's choice. The promise is rejected (no
  network), or it resolves to a response with its \<open>ok\<close> flag and its status, whose
  \<open>json()\<close> is rejected or resolves to the parsed value. A parsed value is the typed
  object the source casts it to, or a falsy value such as \<open>null\<close> (\<open>None\<close>).
\<close>

datatype 'a body = JsonRejected | JsonValue "'a option"

datatype 'a fetched = FetchRejected | Response bool nat "'a body"

type_synonym 'a network = "string \<Rightarrow> 'a fetched"

section \<open>Objects used as dictionaries\<close>

text \<open>
  A rate table parsed from JSON and the object \<open>this.rates\<close> are plain objects: own
  properties, and a prototype from which a read of a key that is not an own property
  inherits. The prototype of a parsed table is \<open>Object.prototype\<close>, whose members are
  the functions named below and the accessor \<open>__proto__\<close>; its getter gives the
  prototype of the object that is read. So a read yields a number, a table,
  \<open>Object.prototype\<close> itself, or the member of \<open>Object.prototype\<close> of some name. The
  built-ins are taken as the platform provides them, unmodified.
\<close>

definition objectPrototypeNames :: "string list" where
  "objectPrototypeNames =
     [''constructor'', ''__defineGetter__'', ''__defineSetter__'', ''hasOwnProperty'',
      ''__lookupGetter__'', ''__lookupSetter__'', ''isPrototypeOf'',
      ''propertyIsEnumerable'', ''toString'', ''valueOf'', ''toLocaleString'']"

datatype jsvalue = Num number | Table ConversionRates | ObjectPrototype | Member string

definition fromObjectPrototype :: "jsvalue \<Rightarrow> string \<Rightarrow> jsvalue option" where
  \<comment> \<open>the read of key \<open>k\<close> arrives at \<open>Object.prototype\<close>; \<open>proto\<close> is the prototype of the object read\<close>
  "fromObjectPrototype proto k =
     (if k = ''__proto__'' then Some proto
      else if k \<in> set objectPrototypeNames then Some (Member k)
      else None)"

text \<open>
  Reading a property of a number or of a built-in object (\<open>Object.prototype\<close>, one of
  its members) and using it as a rate is the platform's business. A platform answers,
  for such a value \<open>v\<close> and a key \<open>k\<close>: \<open>Inl e\<close> when the read \<open>v[k]\<close> or the conversion of
  its value to a number throws \<open>e\<close>; \<open>Inr None\<close> when the value read is falsy;
  \<open>Inr (Some n)\<close> when it is truthy and \<open>n\<close> is the number it converts to.
\<close>

type_synonym platform = "jsvalue \<Rightarrow> string \<Rightarrow> error + number option"

section \<open>ExchangeRate\<close>

record currency =
  code :: string
  name :: string

record ExchangeRate =
  exchangeRateApiKey :: "string option"
  currencies :: "currency list"
  rates :: "string \<rightharpoonup> ConversionRates"
  ratesPrototype :: "ConversionRates option"
  updatedAt :: "int option"

definition exchangeRateBaseUrl :: string where
  "exchangeRateBaseUrl = ''https://v6.exchangerate-api.com/v6/''"

text \<open>
  The object \<open>this.rates\<close> is kept as its own properties (\<open>rates\<close>) and its prototype
  (\<open>ratesPrototype\<close>): \<open>None\<close> is \<open>Object.prototype\<close>, the prototype of the literal \<open>{}\<close>,
  and \<open>Some p\<close> is a parsed table \<open>p\<close> that has taken its place.

  The constructor; the field initialisers give the empty caches.
\<close>

definition new_ExchangeRate :: "string \<Rightarrow> error + ExchangeRate" where
  "new_ExchangeRate apiKey =
     (if apiKey = [] then Inl (Error ''API key is required.'')
      else Inr \<lparr>exchangeRateApiKey = Some apiKey, currencies = [],
                rates = Map.empty, ratesPrototype = None, updatedAt = None\<rparr>)"

text \<open>
  Every operation returns its result (or the error it throws), the instance after the
  call, and the list of the URLs it requested from the network, in order.

  \<open>fetchApiData\<close>: a rejected \<open>fetch\<close> and a response that is not \<open>ok\<close> are caught
  and give \<open>null\<close>. The promise of \<open>response.json()\<close> is returned without \<open>await\<close>,
  so its rejection leaves the \<open>try\<close> block uncaught and rejects \<open>fetchApiData\<close>.
\<close>

definition apiUrl :: "ExchangeRate \<Rightarrow> string \<Rightarrow> string" where
  "apiUrl this endpoint =
     exchangeRateBaseUrl @ ''/''
       @ (case exchangeRateApiKey this of None \<Rightarrow> ''null'' | Some k \<Rightarrow> k)
       @ ''/'' @ endpoint"

definition fetchApiData ::
  "'a network \<Rightarrow> ExchangeRate \<Rightarrow> string \<Rightarrow> (error + 'a option) \<times> string list" where
  "fetchApiData net this endpoint =
     (case net (apiUrl this endpoint) of
        FetchRejected \<Rightarrow> (Inr None, [apiUrl this endpoint])
      | Response ok status b \<Rightarrow>
          if \<not> ok then (Inr None, [apiUrl this endpoint])
          else (case b of
                  JsonRejected \<Rightarrow> (Inl SyntaxError, [apiUrl this endpoint])
                | JsonValue v \<Rightarrow> (Inr v, [apiUrl this endpoint])))"

definition fetchCurrencies ::
  "CodesData network \<Rightarrow> ExchangeRate \<Rightarrow> (error + unit) \<times> ExchangeRate \<times> string list" where
  "fetchCurrencies net this =
     (case fetchApiData net this ''/codes'' of
        (Inl e, q) \<Rightarrow> (Inl e, this, q)
      | (Inr None, q) \<Rightarrow> (Inr (), this, q)
      | (Inr (Some d), q) \<Rightarrow>
          if CodesData.result d = ''success''
          then (Inr (),
                this\<lparr>currencies :=
                       map (\<lambda>(c, n). \<lparr>code = c, name = n\<rparr>) (supported_codes d)\<rparr>,
                q)
          else (Inr (), this, q))"

text \<open>
  The read \<open>this.rates[k]\<close>: an own property, else what the prototype chain gives. When
  a table has become the prototype, its own properties are inherited, as numbers.
\<close>

definition ratesGet :: "ExchangeRate \<Rightarrow> string \<Rightarrow> jsvalue option" where
  "ratesGet this k =
     (case rates this k of
        Some t \<Rightarrow> Some (Table t)
      | None \<Rightarrow>
          (case ratesPrototype this of
             None \<Rightarrow> fromObjectPrototype ObjectPrototype k
           | Some p \<Rightarrow>
               (case p k of
                  Some x \<Rightarrow> Some (Num x)
                | None \<Rightarrow> fromObjectPrototype (Table p) k)))"

text \<open>
  The assignment \<open>this.rates[k] = t\<close>. It writes an own property, except that for the
  key \<open>__proto__\<close>, when neither the object nor a table that is its prototype has an own
  property of that name, it arrives at the setter of \<open>Object.prototype\<close>, which makes
  \<open>t\<close> the prototype of \<open>this.rates\<close>.
\<close>

definition ratesSet :: "ExchangeRate \<Rightarrow> string \<Rightarrow> ConversionRates \<Rightarrow> ExchangeRate" where
  "ratesSet this k t =
     (if k = ''__proto__'' \<and> rates this k = None
         \<and> (case ratesPrototype this of None \<Rightarrow> True | Some p \<Rightarrow> p k = None)
      then this\<lparr>ratesPrototype := Some t\<rparr>
      else this\<lparr>rates := (rates this)(k \<mapsto> t)\<rparr>)"

text \<open>\<open>v || null\<close>: objects and functions are truthy, \<open>undefined\<close> is not.\<close>

definition orNull :: "jsvalue option \<Rightarrow> jsvalue option" where
  "orNull v =
     (case v of
        Some (Num x) \<Rightarrow> if truthy x then Some (Num x) else None
      | _ \<Rightarrow> v)"

text \<open>
  \<open>fetchRates\<close>, at the time \<open>now\<close> (milliseconds) that \<open>new Date().getTime()\<close> reads. It
  is declared to return a rate table or \<open>null\<close>; what it returns is
  \<open>this.rates[code] || null\<close>.
\<close>

definition stale :: "int \<Rightarrow> ExchangeRate \<Rightarrow> bool" where
  \<comment> \<open>the test \<open>!this.updatedAt || now - this.updatedAt.getTime() > 3600000\<close>\<close>
  "stale now this = (case updatedAt this of None \<Rightarrow> True | Some t \<Rightarrow> now - t > 3600000)"

definition fetchRates ::
  "CurrencyData network \<Rightarrow> int \<Rightarrow> string \<Rightarrow> ExchangeRate
     \<Rightarrow> (error + jsvalue option) \<times> ExchangeRate \<times> string list" where
  "fetchRates net now c this =
     (if stale now this
      then (case fetchApiData net this (''/latest/'' @ c) of
              (Inl e, q) \<Rightarrow> (Inl e, this, q)
            | (Inr dat, q) \<Rightarrow>
                (let this' =
                   (case dat of
                      None \<Rightarrow> this
                    | Some d \<Rightarrow>
                        if CurrencyData.result d = ''success''
                        then ratesSet this c (conversion_rates d)
                        else this)
                 in (Inr (orNull (ratesGet this' c)), this', q)))
      else (Inr (orNull (ratesGet this c)), this, []))"

text \<open>
  \<open>convert\<close>. When \<open>data\<close> is a rate table, \<open>data[to]\<close> is its own entry, a number;
  without one it is what the table inherits from \<open>Object.prototype\<close>: a function, or
  for \<open>__proto__\<close> that object itself, either of them truthy and \<open>NaN\<close> as a number.
  When \<open>data\<close> is no table, the platform \<open>P\<close> says what the read gives.
\<close>

definition convert ::
  "platform \<Rightarrow> CurrencyData network \<Rightarrow> int \<Rightarrow> string \<Rightarrow> string \<Rightarrow> number \<Rightarrow> ExchangeRate
     \<Rightarrow> (error + number option) \<times> ExchangeRate \<times> string list" where
  "convert P net now from to amount this =
     (if \<not> list_ex (\<lambda>x. code x = from) (currencies this)
      then (Inl (Error (''Invalid currency: '' @ from)), this, [])
      else if \<not> list_ex (\<lambda>x. code x = to) (currencies this)
      then (Inl (Error (''Invalid currency: '' @ to)), this, [])
      else (case fetchRates net now from this of
              (Inl e, this', q) \<Rightarrow> (Inl e, this', q)
            | (Inr None, this', q) \<Rightarrow> (Inr None, this', q)
            | (Inr (Some (Table d)), this', q) \<Rightarrow>
                (case d to of
                   Some rate \<Rightarrow>
                     if \<not> truthy rate
                     then (Inl (Error (''Exchange rate not found for '' @ from
                                         @ '' to '' @ to)), this', q)
                     else (Inr (Some (mul amount rate)), this', q)
                 | None \<Rightarrow>
                     if fromObjectPrototype ObjectPrototype to = None
                     then (Inl (Error (''Exchange rate not found for '' @ from
                                         @ '' to '' @ to)), this', q)
                     else (Inr (Some (mul amount NaN)), this', q))
            | (Inr (Some v), this', q) \<Rightarrow>
                (case P v to of
                   Inl e \<Rightarrow> (Inl e, this', q)
                 | Inr None \<Rightarrow>
                     (Inl (Error (''Exchange rate not found for '' @ from @ '' to '' @ to)),
                      this', q)
                 | Inr (Some n) \<Rightarrow> (Inr (Some (mul amount n)), this', q))))"

definition getCurrencies ::
  "CodesData network \<Rightarrow> ExchangeRate \<Rightarrow> (error + string list) \<times> ExchangeRate \<times> string list" where
  "getCurrencies net this =
     (if length (currencies this) = 0
      then (case fetchCurrencies net this of
              (Inl e, this', q) \<Rightarrow> (Inl e, this', q)
            | (Inr u, this', q) \<Rightarrow> (Inr (map code (currencies this')), this', q))
      else (Inr (map code (currencies this)), this, []))"

definition getCurrenciesWithNames ::
  "CodesData network \<Rightarrow> ExchangeRate
     \<Rightarrow> (error + currency list) \<times> ExchangeRate \<times> string list" where
  "getCurrenciesWithNames net this =
     (if length (currencies this) = 0
      then (case fetchCurrencies net this of
              (Inl e, this', q) \<Rightarrow> (Inl e, this', q)
            | (Inr u, this', q) \<Rightarrow> (Inr (currencies this'), this', q))
      else (Inr (currencies this), this, []))"

definition getCurrencyName ::
  "CodesData network \<Rightarrow> string \<Rightarrow> ExchangeRate
     \<Rightarrow> (error + string option) \<times> ExchangeRate \<times> string list" where
  "getCurrencyName net c this =
     (if length (currencies this) = 0
      then (case fetchCurrencies net this of
              (Inl e, this', q) \<Rightarrow> (Inl e, this', q)
            | (Inr u, this', q) \<Rightarrow>
                (Inr (map_option name (find (\<lambda>x. code x = c) (currencies this'))), this', q))
      else (Inr (map_option name (find (\<lambda>x. code x = c) (currencies this))), this, []))"

section \<open>CurrencyFormat\<close>

record CurrencyFormat =
  lang :: string

definition new_CurrencyFormat :: "string \<Rightarrow> error + CurrencyFormat" where
  "new_CurrencyFormat l =
     (if l = [] then Inl (Error ''Language code is required.'') else Inr \<lparr>lang = l\<rparr>)"

text \<open>
  \<open>Intl.NumberFormat\<close> belongs to the platform, not to the repository, so \<open>format\<close>
  takes it as a parameter: given the locale and the currency code of the options
  \<open>{style: "currency", currency}\<close>, the constructor throws or gives the formatter,
  whose \<open>format\<close> maps a number to a string.
\<close>

type_synonym NumberFormat = "string \<Rightarrow> string \<Rightarrow> error + (number \<Rightarrow> string)"

definition format :: "NumberFormat \<Rightarrow> CurrencyFormat \<Rightarrow> number \<Rightarrow> string \<Rightarrow> error + string" where
  "format nf this v c =
     (if c = [] then Inl (Error ''Currency code is required.'')
      else (case nf (lang this) c of Inl e \<Rightarrow> Inl e | Inr f \<Rightarrow> Inr (f v)))"

text \<open>
  The part of the platform's constructor that ECMA-402 fixes: the locale list is
  canonicalised first (a \<open>RangeError\<close> on a tag that is not well formed), then the
  currency code must be well formed, that is three ASCII letters
  (\<open>IsWellFormedCurrencyCode\<close>), or a \<open>RangeError\<close> is thrown. Which tags are well
  formed and how a number is rendered are left as parameters.
\<close>

definition isAsciiLetter :: "char \<Rightarrow> bool" where
  "isAsciiLetter ch =
     ((of_char ch :: nat) \<in> {65..90} \<or> (of_char ch :: nat) \<in> {97..122})"

definition IsWellFormedCurrencyCode :: "string \<Rightarrow> bool" where
  "IsWellFormedCurrencyCode c = (length c = 3 \<and> list_all isAsciiLetter c)"

definition Intl_NumberFormat ::
  "(string \<Rightarrow> bool) \<Rightarrow> (string \<Rightarrow> string \<Rightarrow> number \<Rightarrow> string) \<Rightarrow> NumberFormat" where
  "Intl_NumberFormat wellFormedTag render l c =
     (if \<not> wellFormedTag l then Inl RangeError
      else if \<not> IsWellFormedCurrencyCode c then Inl RangeError
      else Inr (render l c))"

section \<open>Example environments\<close>

text \<open>
  A fresh instance for the key \<open>KEY\<close>, a provider that serves the two codes USD and BRL,
  the instance once it has loaded them, a provider that serves one rate table for one
  base, a network that is down, and the instance with a table cached for USD.
\<close>

definition fresh :: ExchangeRate where
  "fresh = \<lparr>exchangeRateApiKey = Some ''KEY'', currencies = [],
             rates = Map.empty, ratesPrototype = None, updatedAt = None\<rparr>"

definition codesUp :: "CodesData network" where
  "codesUp u =
     (if u = ''https://v6.exchangerate-api.com/v6//KEY//codes''
      then Response True 200 (JsonValue (Some
             \<lparr>CodesData.result = ''success'',
              supported_codes = [(''USD'', ''United States Dollar''),
                                 (''BRL'', ''Brazilian Real'')]\<rparr>))
      else Response False 404 JsonRejected)"

definition loaded :: ExchangeRate where
  "loaded = fresh\<lparr>currencies := [\<lparr>code = ''USD'', name = ''United States Dollar''\<rparr>,
                                  \<lparr>code = ''BRL'', name = ''Brazilian Real''\<rparr>]\<rparr>"

definition ratesUp :: "string \<Rightarrow> ConversionRates \<Rightarrow> CurrencyData network" where
  "ratesUp b t u =
     (if u = ''https://v6.exchangerate-api.com/v6//KEY//latest/'' @ b
      then Response True 200 (JsonValue (Some
             \<lparr>CurrencyData.result = ''success'', conversion_rates = t\<rparr>))
      else Response False 404 JsonRejected)"

definition down :: "'a network" where
  "down u = FetchRejected"

text \<open>
  An example platform, after the built-ins of ECMA-262 (2023): the members of
  \<open>Number.prototype\<close> and \<open>Function.prototype\<close>, the static methods of \<open>Object\<close>, and the
  \<open>length\<close> of each member of \<open>Object.prototype\<close>. Functions, objects and names are
  truthy and \<open>NaN\<close> as numbers; \<open>Number.prototype\<close> is 0 as a number; the prototype of
  \<open>Object.prototype\<close> is \<open>null\<close>; \<open>caller\<close> and \<open>arguments\<close> of a built-in function
  throw.
\<close>

definition numberPrototypeNames :: "string list" where
  "numberPrototypeNames =
     [''constructor'', ''toExponential'', ''toFixed'', ''toLocaleString'', ''toPrecision'',
      ''toString'', ''valueOf'']"

definition functionPrototypeNames :: "string list" where
  "functionPrototypeNames = [''apply'', ''bind'', ''call'', ''constructor'', ''toString'']"

definition objectStaticNames :: "string list" where
  "objectStaticNames =
     [''assign'', ''create'', ''defineProperties'', ''defineProperty'', ''entries'',
      ''freeze'', ''fromEntries'', ''getOwnPropertyDescriptor'',
      ''getOwnPropertyDescriptors'', ''getOwnPropertyNames'', ''getOwnPropertySymbols'',
      ''getPrototypeOf'', ''hasOwn'', ''is'', ''isExtensible'', ''isFrozen'', ''isSealed'',
      ''keys'', ''preventExtensions'', ''seal'', ''setPrototypeOf'', ''values'']"

definition memberLength :: "string \<Rightarrow> nat" where
  "memberLength f =
     (if f \<in> {''__defineGetter__'', ''__defineSetter__''} then 2
      else if f \<in> {''toString'', ''valueOf'', ''toLocaleString''} then 0
      else 1)"

definition es2023 :: platform where
  "es2023 v k =
     (case v of
        Table t \<Rightarrow>
          (case t k of
             Some r \<Rightarrow> if truthy r then Inr (Some r) else Inr None
           | None \<Rightarrow>
               if fromObjectPrototype ObjectPrototype k = None then Inr None
               else Inr (Some NaN))
      | ObjectPrototype \<Rightarrow>
          if k \<in> set objectPrototypeNames then Inr (Some NaN) else Inr None
      | Num x \<Rightarrow>
          if k = ''__proto__'' then Inr (Some (Finite 0))
          else if k \<in> set numberPrototypeNames \<union> set objectPrototypeNames
          then Inr (Some NaN)
          else Inr None
      | Member f \<Rightarrow>
          if k = ''length''
          then (if memberLength f = 0 then Inr None
                else Inr (Some (Finite (real (memberLength f)))))
          else if k \<in> {''caller'', ''arguments''} then Inl TypeError
          else if k \<in> {''name'', ''__proto__''} \<union> set functionPrototypeNames
                      \<union> set objectPrototypeNames
          then Inr (Some NaN)
          else if f = ''constructor'' \<and> k \<in> insert ''prototype'' (set objectStaticNames)
          then Inr (Some NaN)
          else Inr None)"

definition cached :: ExchangeRate where
  "cached = loaded\<lparr>rates := [''USD'' \<mapsto> [''BRL'' \<mapsto> Finite 5]]\<rparr>"

section \<open>Notions the properties are stated with\<close>

text \<open>
  The outcomes of the request for a rate table that produce no success result: the
  network fails, the HTTP status is an error, or the body is falsy or carries a
  \<open>result\<close> other than \<open>"success"\<close>. (An \<open>ok\<close> response whose body is not JSON is a
  different matter: it makes \<open>fetchApiData\<close> throw.)
\<close>

fun noSuccess :: "CurrencyData fetched \<Rightarrow> bool" where
  "noSuccess FetchRejected = True"
| "noSuccess (Response ok st JsonRejected) = (\<not> ok)"
| "noSuccess (Response ok st (JsonValue None)) = True"
| "noSuccess (Response ok st (JsonValue (Some d))) =
     (if ok then CurrencyData.result d \<noteq> ''success'' else True)"

text \<open>
  The two currency-listing operations, by what a call does to the instance and which
  URLs it requests.
\<close>

datatype listing = GetCurrencies | GetCurrenciesWithNames

fun listing_effect ::
  "listing \<Rightarrow> CodesData network \<Rightarrow> ExchangeRate \<Rightarrow> ExchangeRate \<times> string list" where
  "listing_effect GetCurrencies net this = snd (getCurrencies net this)"
| "listing_effect GetCurrenciesWithNames net this = snd (getCurrenciesWithNames net this)"

section \<open>Facts used throughout\<close>

lemmas net_defs = fetchApiData_def apiUrl_def exchangeRateBaseUrl_def

lemmas example_defs = fresh_def loaded_def codesUp_def ratesUp_def down_def cached_def

lemmas rates_defs = ratesGet_def ratesSet_def orNull_def fromObjectPrototype_def
  objectPrototypeNames_def

text \<open>The example instances are states the program reaches.\<close>

lemma fresh_constructed: "new_ExchangeRate ''KEY'' = Inr fresh"
  by (simp add: new_ExchangeRate_def fresh_def)

lemma loaded_reached:
  "getCurrenciesWithNames codesUp fresh
     = (Inr (currencies loaded), loaded, [''https://v6.exchangerate-api.com/v6//KEY//codes''])"
  by (simp add: getCurrenciesWithNames_def fetchCurrencies_def net_defs example_defs)

lemma cached_reached:
  "fetchRates (ratesUp ''USD'' [''BRL'' \<mapsto> Finite 5]) 0 ''USD'' loaded
     = (Inr (Some (Table [''BRL'' \<mapsto> Finite 5])), cached,
        [''https://v6.exchangerate-api.com/v6//KEY//latest/USD''])"
  by (simp add: fetchRates_def stale_def net_defs example_defs rates_defs)

lemma fetchApiData_requests: "snd (fetchApiData net this e) = [apiUrl this e]"
  by (simp add: fetchApiData_def split: fetched.splits body.splits)

lemma list_ex_code: "list_ex (\<lambda>x. code x = c) xs \<longleftrightarrow> c \<in> code ` set xs"
  by (auto simp: list_ex_iff)

text \<open>A positive rate is truthy.\<close>

lemma positive_truthy: "positive r \<Longrightarrow> truthy r"
  by (cases r) simp_all

text \<open>
  An assignment to a key other than \<open>__proto__\<close> writes the own property of that key
  and nothing else, and is read back as the table.
\<close>

lemma ratesSet_own:
  "k \<noteq> ''__proto__'' \<Longrightarrow> ratesSet this k t = this\<lparr>rates := (rates this)(k \<mapsto> t)\<rparr>"
  by (simp add: ratesSet_def)

lemma ratesGet_own: "rates this k = Some t \<Longrightarrow> ratesGet this k = Some (Table t)"
  by (simp add: ratesGet_def)

lemma ratesGet_ratesSet_other:
  "k \<noteq> ''__proto__'' \<Longrightarrow> b \<noteq> k \<Longrightarrow> ratesGet (ratesSet this k t) b = ratesGet this b"
  by (simp add: ratesSet_def ratesGet_def split: option.splits)

text \<open>Representable integers are rounded to themselves, so their products are exact.\<close>

lemma roundHalfEven_of_int: "roundHalfEven (of_int z) = z"
  by (simp add: roundHalfEven_def)

lemma floor_log2_int:
  fixes n :: int
  assumes "1 \<le> n" and "n < 2 ^ 53"
  shows "0 \<le> \<lfloor>log 2 (of_int n)\<rfloor>" and "\<lfloor>log 2 (of_int n)\<rfloor> \<le> 52"
proof -
  have p: "(0::real) < of_int n" "(1::real) \<le> of_int n" using assms(1) by simp_all
  then have "0 \<le> log 2 (of_int n)" by simp
  then show "0 \<le> \<lfloor>log 2 (of_int n)\<rfloor>" by simp
  have "(of_int n :: real) < 2 ^ 53"
    using assms(2) by (metis of_int_less_numeral_power_cancel_iff)
  then have "(of_int n :: real) < 2 powr 53" by simp
  then have "log 2 (of_int n) < 53" using p by (simp add: log_less_iff)
  then have "\<lfloor>log 2 (of_int n)\<rfloor> < 53" by (simp add: floor_less_iff)
  then show "\<lfloor>log 2 (of_int n)\<rfloor> \<le> 52" by simp
qed

lemma roundDouble_pos_int:
  fixes n :: int
  assumes "1 \<le> n" and "n < 2 ^ 53"
  shows "roundDouble (of_int n) = Finite (of_int n)"
proof -
  define x :: real where "x = of_int n"
  define e where "e = \<lfloor>log 2 \<bar>x\<bar>\<rfloor>"
  have ax: "\<bar>x\<bar> = of_int n" "x \<noteq> 0" "sgn x = 1" "0 < x"
    using assms(1) by (simp_all add: x_def)
  have e: "0 \<le> e" "e \<le> 52"
    using floor_log2_int [OF assms] by (simp_all add: e_def ax)
  define k where "k = nat (52 - e)"
  have E: "max \<lfloor>log 2 \<bar>x\<bar>\<rfloor> (- 1022) = e"
    using e by (simp add: e_def)
  have U: "2 powr of_int (e - 52) = 1 / (2::real) ^ k"
  proof -
    have "of_int (e - 52) = - real k" using e by (simp add: k_def)
    then show ?thesis by (simp add: powr_minus powr_realpow divide_inverse)
  qed
  have "\<bar>x\<bar> / (1 / (2::real) ^ k) = of_int (n * 2 ^ k)"
    by (simp add: ax)
  then have Q: "roundHalfEven (\<bar>x\<bar> / (1 / (2::real) ^ k)) = n * 2 ^ k"
    by (simp only: roundHalfEven_of_int)
  have M: "of_int (n * 2 ^ k) * (1 / (2::real) ^ k) = x"
    by (simp add: x_def)
  have lt: "\<not> (2::real) ^ 1024 \<le> x"
  proof -
    have "(of_int n :: real) < 2 ^ 53"
      using assms(2) by (metis of_int_less_numeral_power_cancel_iff)
    also have "\<dots> \<le> 2 ^ 1024" by (rule power_increasing) simp_all
    finally show ?thesis by (simp add: x_def)
  qed
  have "roundDouble x = Finite (sgn x * x)"
    unfolding roundDouble_def Let_def E U Q M using ax(2) lt by (simp only: if_False)
  then show ?thesis by (simp add: ax(3)) (simp add: x_def)
qed

lemma mul_10_5: "mul (Finite 10) (Finite 5) = Finite 50"
  using roundDouble_pos_int [of 50] by simp

lemma mul_3_2: "mul (Finite 3) (Finite 2) = Finite 6"
  using roundDouble_pos_int [of 6] by simp

text \<open>
  Inexact products are rounded: \<open>9007199254740991 * 3\<close> is not a double and becomes its
  even neighbour; \<open>2 ^ 1023 * 2\<close> overflows to \<open>Infinity\<close>; half of the least positive
  double underflows to zero.
\<close>

lemma floor_log2_eqI:
  assumes "0 < x" and "2 powr of_int k \<le> x" and "x < 2 powr of_int (k + 1)"
  shows "\<lfloor>log 2 x\<rfloor> = k"
proof -
  have "of_int k \<le> log 2 x" using assms(1,2) by (simp add: le_log_iff)
  moreover have "log 2 x < of_int (k + 1)" using assms(1,3) by (simp add: log_less_iff)
  ultimately show ?thesis by (simp add: floor_eq_iff)
qed

lemma mul_rounds: "mul (Finite 9007199254740991) (Finite 3) = Finite 27021597764222972"
proof -
  have e: "\<lfloor>log 2 \<bar>27021597764222973 :: real\<bar>\<rfloor> = 54"
    by (rule floor_log2_eqI) (simp_all add: powr_numeral)
  have u: "(2::real) powr of_int (max 54 (- 1022) - 52) = 4"
    by (simp add: powr_numeral)
  have q: "roundHalfEven (\<bar>27021597764222973\<bar> / 4) = 6755399441055743"
    by (simp add: roundHalfEven_def)
  have "roundDouble 27021597764222973 = Finite 27021597764222972"
    unfolding roundDouble_def Let_def e u q by simp
  then show ?thesis by simp
qed

lemma mul_overflows: "mul (Finite (2 ^ 1023)) (Finite 2) = PosInfinity"
proof -
  have x: "(2::real) ^ 1023 * 2 = 2 ^ 1024" by simp
  have "\<bar>(2::real) ^ 1024\<bar> = 2 powr of_int 1024"
    by (simp add: powr_realpow [symmetric])
  then have "log 2 \<bar>(2::real) ^ 1024\<bar> = of_int 1024"
    by (simp only: log_powr_cancel)
  then have e: "\<lfloor>log 2 \<bar>(2::real) ^ 1024\<bar>\<rfloor> = 1024"
    by (simp only: floor_of_int)
  have u: "(2::real) powr of_int (max 1024 (- 1022) - 52) = 2 ^ 972"
    by (simp add: powr_realpow [symmetric])
  have d: "\<bar>(2::real) ^ 1024\<bar> / 2 ^ 972 = of_int (2 ^ 52)"
    by (simp add: power_diff [symmetric])
  have q: "roundHalfEven (\<bar>(2::real) ^ 1024\<bar> / 2 ^ 972) = 2 ^ 52"
    unfolding d by (rule roundHalfEven_of_int)
  have m: "real_of_int (2 ^ 52) * 2 ^ 972 = 2 ^ 1024"
    by (simp add: power_add [symmetric])
  have "roundDouble (2 ^ 1024) = PosInfinity"
    unfolding roundDouble_def Let_def e u q m by simp
  then show ?thesis by (simp only: mul.simps x)
qed

lemma mul_underflows: "mul (Finite (2 powr - 1074)) (Finite (1 / 2)) = Finite 0"
proof -
  have h: "(1::real) / 2 = 2 powr - 1" by (simp add: powr_minus_divide)
  have x: "(2::real) powr - 1074 * (1 / 2) = 2 powr - 1075"
    unfolding h by (simp only: powr_add [symmetric]) simp
  have pos: "(0::real) < 2 powr - 1075" by simp
  have nz: "(2::real) powr - 1075 \<noteq> 0" by simp
  have a: "\<bar>(2::real) powr - 1075\<bar> = 2 powr - 1075" by simp
  have e: "\<lfloor>log 2 ((2::real) powr - 1075)\<rfloor> = - 1075"
  proof -
    have "log 2 ((2::real) powr of_int (- 1075)) = of_int (- 1075)"
      by (simp only: log_powr_cancel)
    then have "\<lfloor>log 2 ((2::real) powr of_int (- 1075))\<rfloor> = - 1075"
      by (simp only: floor_of_int)
    then show ?thesis by simp
  qed
  have u: "(2::real) powr of_int (max (- 1075) (- 1022) - 52) = 2 powr - 1074"
    by simp
  have d: "(2::real) powr - 1075 / 2 powr - 1074 = 1 / 2"
    unfolding h by (simp only: powr_diff [symmetric]) simp
  have q: "roundHalfEven ((2::real) powr - 1075 / 2 powr - 1074) = 0"
    unfolding d by (simp add: roundHalfEven_def)
  have "roundDouble (2 powr - 1075) = Finite 0"
    unfolding roundDouble_def Let_def a e u q using nz by (simp del: powr_eq_0_iff)
  then show ?thesis by (simp only: mul.simps x)
qed

section \<open>Conversion\<close>

text \<open>
  With \<open>from\<close> and \<open>to\<close> in the currency list, whenever the value that \<open>fetchRates\<close>
  obtains for \<open>from\<close> is a rate table with a truthy entry for \<open>to\<close>, \<open>convert\<close> returns
  the product; the instance and the requests are those of \<open>fetchRates\<close>.
\<close>

lemma convert_truthy_rate:
  assumes "from \<in> code ` set (currencies this)" and "to \<in> code ` set (currencies this)"
    and "fetchRates net now from this = (Inr (Some (Table d)), this', q)"
    and "d to = Some r" and "truthy r"
  shows "convert P net now from to amount this = (Inr (Some (mul amount r)), this', q)"
  using assms by (simp add: convert_def list_ex_code)

text \<open>
  A key that the table does not own but inherits from \<open>Object.prototype\<close> reads as a
  function, which is truthy: \<open>convert\<close> returns \<open>NaN\<close> and throws nothing.
\<close>

lemma convert_inherited_rate:
  assumes "from \<in> code ` set (currencies this)" and "to \<in> code ` set (currencies this)"
    and "fetchRates net now from this = (Inr (Some (Table d)), this', q)"
    and "d to = None" and "to \<in> set objectPrototypeNames"
  shows "convert P net now from to amount this = (Inr (Some NaN), this', q)"
proof -
  have "mul amount NaN = NaN" by (cases amount) simp_all
  with assms show ?thesis
    by (simp add: convert_def list_ex_code fromObjectPrototype_def)
qed

text \<open>
  C1: for \<open>from\<close> and \<open>to\<close> both in the cached currency list and every amount (so every
  amount \<open>\<ge> 0\<close>), if the rate table that \<open>fetchRates\<close> obtains for \<open>from\<close> has an entry
  for \<open>to\<close> with the rate \<open>r\<close>, a positive multiplier as the rates of a table are, then
  \<open>convert(from, to, amount)\<close> returns \<open>amount * r\<close>, the product of the two doubles.
\<close>

theorem convert_returns_product:
  assumes "from \<in> code ` set (currencies this)" and "to \<in> code ` set (currencies this)"
    and "fetchRates net now from this = (Inr (Some (Table d)), this', q)"
    and "d to = Some r" and "positive r"
  shows "convert P net now from to amount this = (Inr (Some (mul amount r)), this', q)"
  using assms by (simp add: convert_def list_ex_code positive_truthy)

theorem convert_returns_product_witness:
  "''USD'' \<in> code ` set (currencies loaded) \<and> ''BRL'' \<in> code ` set (currencies loaded)
   \<and> fetchRates (ratesUp ''USD'' [''BRL'' \<mapsto> Finite 2]) 0 ''USD'' loaded
       = (Inr (Some (Table [''BRL'' \<mapsto> Finite 2])),
          loaded\<lparr>rates := [''USD'' \<mapsto> [''BRL'' \<mapsto> Finite 2]]\<rparr>,
          [''https://v6.exchangerate-api.com/v6//KEY//latest/USD''])
   \<and> [''BRL'' \<mapsto> Finite 2] ''BRL'' = Some (Finite 2) \<and> positive (Finite 2)
   \<and> convert es2023 (ratesUp ''USD'' [''BRL'' \<mapsto> Finite 2]) 0 ''USD'' ''BRL'' (Finite 3) loaded
       = (Inr (Some (Finite 6)),
          loaded\<lparr>rates := [''USD'' \<mapsto> [''BRL'' \<mapsto> Finite 2]]\<rparr>,
          [''https://v6.exchangerate-api.com/v6//KEY//latest/USD''])"
proof -
  have f: "fetchRates (ratesUp ''USD'' [''BRL'' \<mapsto> Finite 2]) 0 ''USD'' loaded
       = (Inr (Some (Table [''BRL'' \<mapsto> Finite 2])),
          loaded\<lparr>rates := [''USD'' \<mapsto> [''BRL'' \<mapsto> Finite 2]]\<rparr>,
          [''https://v6.exchangerate-api.com/v6//KEY//latest/USD''])"
    by (simp add: fetchRates_def stale_def net_defs example_defs rates_defs)
  have m: "''USD'' \<in> code ` set (currencies loaded)" "''BRL'' \<in> code ` set (currencies loaded)"
    by (simp_all add: example_defs)
  have r: "[''BRL'' \<mapsto> Finite 2] ''BRL'' = Some (Finite 2)" "positive (Finite 2)"
    by simp_all
  show ?thesis
    using convert_returns_product [OF m f r, of es2023 "Finite 3"] m f r
    by (simp add: mul_3_2 del: mul.simps)
qed

text \<open>
  C3: if \<open>from\<close> or \<open>to\<close> is not in the cached currency list, \<open>convert\<close> throws the
  "Invalid currency" error, naming \<open>from\<close> when \<open>from\<close> is missing and \<open>to\<close> otherwise;
  it requests nothing and leaves the instance as it was.
\<close>

theorem convert_invalid_currency:
  assumes "from \<notin> code ` set (currencies this) \<or> to \<notin> code ` set (currencies this)"
  shows "convert P net now from to amount this =
           (Inl (Error (''Invalid currency: ''
                          @ (if from \<notin> code ` set (currencies this) then from else to))),
            this, [])"
  using assms by (auto simp: convert_def list_ex_code)

theorem convert_invalid_currency_witness:
  "''EUR'' \<notin> code ` set (currencies loaded)
   \<and> convert es2023 down 0 ''USD'' ''EUR'' (Finite 1) loaded
       = (Inl (Error ''Invalid currency: EUR''), loaded, [])"
  using convert_invalid_currency [of "''USD''" loaded "''EUR''" es2023 down 0 "Finite 1"]
  by (simp add: loaded_def fresh_def)

text \<open>
  C9: for \<open>from\<close> and \<open>to\<close> both in the currency list, if the rate table fetched for
  \<open>from\<close> has the key \<open>to\<close> with the value 0, \<open>convert\<close> throws the "Exchange rate not
  found" error although the key is there: \<open>!rate\<close> does not tell a zero rate from a
  missing one.
\<close>

theorem convert_zero_rate_not_found:
  assumes "from \<in> code ` set (currencies this)" and "to \<in> code ` set (currencies this)"
    and "fetchRates net now from this = (Inr (Some (Table d)), this', q)"
    and "d to = Some (Finite 0)"
  shows "convert P net now from to amount this =
           (Inl (Error (''Exchange rate not found for '' @ from @ '' to '' @ to)), this', q)"
  using assms by (simp add: convert_def list_ex_code)

theorem convert_zero_rate_not_found_witness:
  "''BRL'' \<in> code ` set (currencies loaded) \<and> ''USD'' \<in> code ` set (currencies loaded)
   \<and> fetchRates (ratesUp ''BRL'' [''USD'' \<mapsto> Finite 0, ''BRL'' \<mapsto> Finite 1]) 7 ''BRL'' loaded
       = (Inr (Some (Table [''USD'' \<mapsto> Finite 0, ''BRL'' \<mapsto> Finite 1])),
          loaded\<lparr>rates := [''BRL'' \<mapsto> [''USD'' \<mapsto> Finite 0, ''BRL'' \<mapsto> Finite 1]]\<rparr>,
          [''https://v6.exchangerate-api.com/v6//KEY//latest/BRL''])
   \<and> [''USD'' \<mapsto> Finite 0, ''BRL'' \<mapsto> Finite 1] ''USD'' = Some (Finite 0)
   \<and> convert es2023 (ratesUp ''BRL'' [''USD'' \<mapsto> Finite 0, ''BRL'' \<mapsto> Finite 1]) 7 ''BRL''
         ''USD'' (Finite 4) loaded
       = (Inl (Error ''Exchange rate not found for BRL to USD''),
          loaded\<lparr>rates := [''BRL'' \<mapsto> [''USD'' \<mapsto> Finite 0, ''BRL'' \<mapsto> Finite 1]]\<rparr>,
          [''https://v6.exchangerate-api.com/v6//KEY//latest/BRL''])"
proof -
  have f: "fetchRates (ratesUp ''BRL'' [''USD'' \<mapsto> Finite 0, ''BRL'' \<mapsto> Finite 1]) 7 ''BRL'' loaded
       = (Inr (Some (Table [''USD'' \<mapsto> Finite 0, ''BRL'' \<mapsto> Finite 1])),
          loaded\<lparr>rates := [''BRL'' \<mapsto> [''USD'' \<mapsto> Finite 0, ''BRL'' \<mapsto> Finite 1]]\<rparr>,
          [''https://v6.exchangerate-api.com/v6//KEY//latest/BRL''])"
    by (simp add: fetchRates_def stale_def net_defs example_defs rates_defs)
  have m: "''BRL'' \<in> code ` set (currencies loaded)" "''USD'' \<in> code ` set (currencies loaded)"
    by (simp_all add: example_defs)
  have z: "[''USD'' \<mapsto> Finite 0, ''BRL'' \<mapsto> Finite 1] ''USD'' = Some (Finite 0)"
    by simp
  show ?thesis
    using convert_zero_rate_not_found [OF m f z, of es2023 "Finite 4"] m f z by simp
qed

text \<open>
  C7: with USD and BRL in the currency list, if the call consults the provider (the
  cache is stale, as it is in every state with \<open>updatedAt\<close> unset) and the provider
  answers the request for base USD with
  \<open>{result: "success", conversion_rates: {"BRL": 5.0}}\<close>, then
  \<open>convert("USD", "BRL", 10)\<close> returns 50.
\<close>

theorem convert_USD_BRL_10:
  assumes "''USD'' \<in> code ` set (currencies this)" and "''BRL'' \<in> code ` set (currencies this)"
    and "stale now this"
    and "net (apiUrl this ''/latest/USD'')
           = Response True st (JsonValue (Some
               \<lparr>CurrencyData.result = ''success'',
                conversion_rates = [''BRL'' \<mapsto> Finite 5]\<rparr>))"
  shows "fst (convert P net now ''USD'' ''BRL'' (Finite 10) this) = Inr (Some (Finite 50))"
proof -
  have "fst (fetchRates net now ''USD'' this) = Inr (Some (Table [''BRL'' \<mapsto> Finite 5]))"
    using assms(3,4) by (simp add: fetchRates_def fetchApiData_def rates_defs)
  then obtain this' q where
    "fetchRates net now ''USD'' this = (Inr (Some (Table [''BRL'' \<mapsto> Finite 5])), this', q)"
    by (cases "fetchRates net now ''USD'' this") simp
  then show ?thesis
    using assms(1,2) by (simp add: convert_def list_ex_code mul_10_5 del: mul.simps)
qed

theorem convert_USD_BRL_10_witness:
  "''USD'' \<in> code ` set (currencies loaded) \<and> ''BRL'' \<in> code ` set (currencies loaded)
   \<and> stale 1700000000000 loaded
   \<and> ratesUp ''USD'' [''BRL'' \<mapsto> Finite 5] (apiUrl loaded ''/latest/USD'')
       = Response True 200 (JsonValue (Some
               \<lparr>CurrencyData.result = ''success'',
                conversion_rates = [''BRL'' \<mapsto> Finite 5]\<rparr>))
   \<and> fst (convert es2023 (ratesUp ''USD'' [''BRL'' \<mapsto> Finite 5]) 1700000000000 ''USD'' ''BRL''
            (Finite 10) loaded) = Inr (Some (Finite 50))"
proof -
  have m: "''USD'' \<in> code ` set (currencies loaded)" "''BRL'' \<in> code ` set (currencies loaded)"
    by (simp_all add: example_defs)
  have s: "stale 1700000000000 loaded"
    by (simp add: stale_def example_defs)
  have n: "ratesUp ''USD'' [''BRL'' \<mapsto> Finite 5] (apiUrl loaded ''/latest/USD'')
       = Response True 200 (JsonValue (Some
               \<lparr>CurrencyData.result = ''success'',
                conversion_rates = [''BRL'' \<mapsto> Finite 5]\<rparr>))"
    by (simp add: net_defs example_defs)
  show ?thesis
    using convert_USD_BRL_10 [where this = loaded and now = 1700000000000
        and net = "ratesUp ''USD'' [''BRL'' \<mapsto> Finite 5]" and st = 200 and P = es2023,
        OF m s n] m s n
    by simp
qed

section \<open>The rate cache\<close>

text \<open>
  No operation assigns \<open>updatedAt\<close>: it is unset in the constructed instance and stays
  so, hence every call of \<open>fetchRates\<close> goes to the network.
\<close>

lemma ratesSet_fields:
  "updatedAt (ratesSet this k t) = updatedAt this"
  "currencies (ratesSet this k t) = currencies this"
  "exchangeRateApiKey (ratesSet this k t) = exchangeRateApiKey this"
  by (simp_all add: ratesSet_def)

lemma fetchCurrencies_updatedAt:
  "updatedAt (fst (snd (fetchCurrencies net this))) = updatedAt this"
  by (simp add: fetchCurrencies_def split: prod.splits sum.splits option.splits)

lemma fetchRates_updatedAt:
  "updatedAt (fst (snd (fetchRates net now c this))) = updatedAt this"
  by (simp add: fetchRates_def Let_def ratesSet_fields split: prod.splits sum.splits option.splits)

lemma convert_state:
  "fst (snd (convert P net now from to amount this)) = this
   \<or> fst (snd (convert P net now from to amount this)) = fst (snd (fetchRates net now from this))"
proof -
  obtain r this' q where f: "fetchRates net now from this = (r, this', q)"
    by (cases "fetchRates net now from this")
  show ?thesis
  proof (cases r)
    case (Inl e)
    with f show ?thesis by (simp add: convert_def)
  next
    case (Inr v)
    show ?thesis
    proof (cases v)
      case None
      with f Inr show ?thesis by (simp add: convert_def)
    next
      case (Some d)
      with f Inr show ?thesis
        by (cases d) (simp_all add: convert_def split: option.splits sum.splits)
    qed
  qed
qed

lemma convert_updatedAt:
  "updatedAt (fst (snd (convert P net now from to amount this))) = updatedAt this"
  using convert_state [of P net now "from" to amount this]
    fetchRates_updatedAt [of net now "from" this]
  by auto

lemma listing_updatedAt:
  "updatedAt (fst (listing_effect a net this)) = updatedAt this"
proof -
  obtain r this' q where f: "fetchCurrencies net this = (r, this', q)"
    by (cases "fetchCurrencies net this")
  then have "updatedAt this' = updatedAt this"
    using fetchCurrencies_updatedAt [of net this] by simp
  with f show ?thesis
    by (cases a) (simp_all add: getCurrencies_def getCurrenciesWithNames_def split: sum.splits)
qed

lemma fetchRates_unset_requests:
  assumes "updatedAt this = None"
  shows "snd (snd (fetchRates net now c this)) = [apiUrl this (''/latest/'' @ c)]"
proof -
  obtain x q where f: "fetchApiData net this (''/latest/'' @ c) = (x, q)"
    by (cases "fetchApiData net this (''/latest/'' @ c)")
  then have "q = [apiUrl this (''/latest/'' @ c)]"
    using fetchApiData_requests [of net this "''/latest/'' @ c"] by simp
  with f assms show ?thesis
    by (simp add: fetchRates_def stale_def Let_def split: sum.splits)
qed

text \<open>
  C2, evaluated: on the instance that has loaded its currencies, a call of
  \<open>fetchRates("USD")\<close> at time 0 fetches with success and caches the table; a second call
  1000 ms later, well inside the window of 3,600,000 ms, requests the same URL again
  and returns the provider's new table in place of the cached one.
\<close>

theorem fetchRates_refetches_inside_window:
  "fetchRates (ratesUp ''USD'' [''BRL'' \<mapsto> Finite 5]) 0 ''USD'' loaded
     = (Inr (Some (Table [''BRL'' \<mapsto> Finite 5])), cached,
        [''https://v6.exchangerate-api.com/v6//KEY//latest/USD''])
   \<and> fetchRates (ratesUp ''USD'' [''BRL'' \<mapsto> Finite 6]) 1000 ''USD'' cached
     = (Inr (Some (Table [''BRL'' \<mapsto> Finite 6])),
        loaded\<lparr>rates := [''USD'' \<mapsto> [''BRL'' \<mapsto> Finite 6]]\<rparr>,
        [''https://v6.exchangerate-api.com/v6//KEY//latest/USD''])"
  by (simp add: fetchRates_def stale_def net_defs example_defs rates_defs)

text \<open>
  What a call may change. The currency list, the API key and \<open>updatedAt\<close> are left
  alone by every call; for a base other than \<open>__proto__\<close> so is the prototype of
  \<open>this.rates\<close>, and the own entry of the base is the only one written.
\<close>

lemma fetchRates_fields:
  assumes "fetchRates net now c this = (r, this', q)"
  shows "currencies this' = currencies this"
    and "exchangeRateApiKey this' = exchangeRateApiKey this"
    and "updatedAt this' = updatedAt this"
proof -
  obtain x q' where fa: "fetchApiData net this (''/latest/'' @ c) = (x, q')"
    by (cases "fetchApiData net this (''/latest/'' @ c)")
  have "currencies this' = currencies this \<and> exchangeRateApiKey this' = exchangeRateApiKey this
        \<and> updatedAt this' = updatedAt this"
  proof (cases "stale now this")
    case False
    with assms show ?thesis by (auto simp: fetchRates_def)
  next
    case True
    show ?thesis
    proof (cases x)
      case (Inl e)
      with assms True fa show ?thesis by (auto simp: fetchRates_def)
    next
      case (Inr dat)
      with assms True fa show ?thesis
        by (cases dat) (auto simp: fetchRates_def Let_def ratesSet_fields split: if_splits)
    qed
  qed
  then show "currencies this' = currencies this"
    and "exchangeRateApiKey this' = exchangeRateApiKey this"
    and "updatedAt this' = updatedAt this"
    by simp_all
qed

lemma fetchRates_state:
  assumes "fetchRates net now c this = (r, this', q)"
  shows "this' = this \<or> (\<exists>t. this' = ratesSet this c t)"
proof -
  obtain x q' where fa: "fetchApiData net this (''/latest/'' @ c) = (x, q')"
    by (cases "fetchApiData net this (''/latest/'' @ c)")
  show ?thesis
  proof (cases "stale now this")
    case False
    with assms show ?thesis by (auto simp: fetchRates_def)
  next
    case True
    show ?thesis
    proof (cases x)
      case (Inl e)
      with assms True fa show ?thesis by (auto simp: fetchRates_def)
    next
      case (Inr dat)
      with assms True fa show ?thesis
        by (cases dat) (auto simp: fetchRates_def Let_def split: if_splits)
    qed
  qed
qed

text \<open>
  C10, evaluated: a successful call of \<open>fetchRates("__proto__")\<close> on the loaded instance
  writes no entry for its base. The assignment \<open>this.rates["__proto__"] = ...\<close> makes
  the fetched table the prototype of \<open>this.rates\<close>, and the entry read for the other
  base BRL, \<open>this.rates["BRL"]\<close>, changes from \<open>undefined\<close> to 5, so that a later
  \<open>fetchRates("BRL")\<close> whose fetch fails returns 5 where it returned \<open>null\<close>.
\<close>

theorem fetchRates_proto_replaces_prototype:
  "fetchRates (ratesUp ''__proto__'' [''BRL'' \<mapsto> Finite 5]) 0 ''__proto__'' loaded
     = (Inr (Some (Table [''BRL'' \<mapsto> Finite 5])),
        loaded\<lparr>ratesPrototype := Some [''BRL'' \<mapsto> Finite 5]\<rparr>,
        [''https://v6.exchangerate-api.com/v6//KEY//latest/__proto__''])
   \<and> ratesGet loaded ''BRL'' = None
   \<and> ratesGet (loaded\<lparr>ratesPrototype := Some [''BRL'' \<mapsto> Finite 5]\<rparr>) ''BRL''
       = Some (Num (Finite 5))
   \<and> fst (fetchRates down 1 ''BRL'' loaded) = Inr None
   \<and> fst (fetchRates down 1 ''BRL'' (loaded\<lparr>ratesPrototype := Some [''BRL'' \<mapsto> Finite 5]\<rparr>))
       = Inr (Some (Num (Finite 5)))"
  by (simp add: fetchRates_def stale_def net_defs example_defs rates_defs)

text \<open>
  For every other base the frame holds: a call of \<open>fetchRates(base)\<close> with a base other
  than \<open>__proto__\<close>, whatever it returns or throws, leaves the cached currency list, the
  API key, \<open>updatedAt\<close> and the rate-table entry of every other base as they were, own
  and as read through \<open>this.rates\<close>.
\<close>

lemma fetchRates_frame:
  assumes "c \<noteq> ''__proto__''" and "fetchRates net now c this = (r, this', q)"
  shows "currencies this' = currencies this
         \<and> exchangeRateApiKey this' = exchangeRateApiKey this
         \<and> updatedAt this' = updatedAt this
         \<and> ratesPrototype this' = ratesPrototype this
         \<and> (\<forall>b. b \<noteq> c \<longrightarrow> rates this' b = rates this b \<and> ratesGet this' b = ratesGet this b)"
proof -
  have "ratesPrototype this' = ratesPrototype this
         \<and> (\<forall>b. b \<noteq> c \<longrightarrow> rates this' b = rates this b \<and> ratesGet this' b = ratesGet this b)"
    using fetchRates_state [OF assms(2)]
  proof
    assume "this' = this"
    then show ?thesis by simp
  next
    assume "\<exists>t. this' = ratesSet this c t"
    then obtain t where t: "this' = ratesSet this c t" ..
    have "ratesPrototype this' = ratesPrototype this"
      using assms(1) by (simp add: t ratesSet_own)
    moreover have "\<forall>b. b \<noteq> c \<longrightarrow> rates this' b = rates this b"
      using assms(1) by (simp add: t ratesSet_own)
    moreover have "\<forall>b. b \<noteq> c \<longrightarrow> ratesGet this' b = ratesGet this b"
      using assms(1) by (simp add: t ratesGet_ratesSet_other)
    ultimately show ?thesis by simp
  qed
  with fetchRates_fields [OF assms(2)] show ?thesis by simp
qed

lemma fetchRates_frame_example:
  "''BRL'' \<noteq> ''__proto__''
   \<and> fetchRates (ratesUp ''BRL'' [''USD'' \<mapsto> Finite 0.25]) 5 ''BRL'' cached
     = (Inr (Some (Table [''USD'' \<mapsto> Finite 0.25])),
        cached\<lparr>rates := [''USD'' \<mapsto> [''BRL'' \<mapsto> Finite 5], ''BRL'' \<mapsto> [''USD'' \<mapsto> Finite 0.25]]\<rparr>,
        [''https://v6.exchangerate-api.com/v6//KEY//latest/BRL''])
   \<and> currencies (cached\<lparr>rates := [''USD'' \<mapsto> [''BRL'' \<mapsto> Finite 5], ''BRL'' \<mapsto> [''USD'' \<mapsto> Finite 0.25]]\<rparr>)
       = currencies cached
   \<and> exchangeRateApiKey (cached\<lparr>rates := [''USD'' \<mapsto> [''BRL'' \<mapsto> Finite 5], ''BRL'' \<mapsto> [''USD'' \<mapsto> Finite 0.25]]\<rparr>)
       = exchangeRateApiKey cached
   \<and> rates (cached\<lparr>rates := [''USD'' \<mapsto> [''BRL'' \<mapsto> Finite 5], ''BRL'' \<mapsto> [''USD'' \<mapsto> Finite 0.25]]\<rparr>) ''USD''
       = rates cached ''USD''
   \<and> ratesGet (cached\<lparr>rates := [''USD'' \<mapsto> [''BRL'' \<mapsto> Finite 5], ''BRL'' \<mapsto> [''USD'' \<mapsto> Finite 0.25]]\<rparr>) ''USD''
       = ratesGet cached ''USD''"
proof -
  have n: "''BRL'' \<noteq> ''__proto__''" by simp
  have f: "fetchRates (ratesUp ''BRL'' [''USD'' \<mapsto> Finite 0.25]) 5 ''BRL'' cached
     = (Inr (Some (Table [''USD'' \<mapsto> Finite 0.25])),
        cached\<lparr>rates := [''USD'' \<mapsto> [''BRL'' \<mapsto> Finite 5], ''BRL'' \<mapsto> [''USD'' \<mapsto> Finite 0.25]]\<rparr>,
        [''https://v6.exchangerate-api.com/v6//KEY//latest/BRL''])"
    by (simp add: fetchRates_def stale_def net_defs example_defs rates_defs)
  note fr = fetchRates_frame [OF n f]
  have ne: "''USD'' \<noteq> ''BRL''" by simp
  note c = fr [THEN conjunct1]
  note k = fr [THEN conjunct2, THEN conjunct1]
  note u = fr [THEN conjunct2, THEN conjunct2, THEN conjunct2, THEN conjunct2,
      THEN spec [where x = "''USD''"], THEN mp, OF ne]
  show ?thesis
    by (rule conjI [OF n conjI [OF f conjI [OF c conjI [OF k u]]]])
qed

section \<open>The currency list\<close>

text \<open>
  C5, evaluated: on a freshly constructed instance, \<open>convert("USD", "BRL", 10)\<close> throws
  "Invalid currency: USD" and requests nothing, although the provider lists both codes,
  as the lazy load of \<open>getCurrencies\<close> on the same instance shows.
\<close>

theorem convert_does_not_load_currencies:
  "convert es2023 (ratesUp ''USD'' [''BRL'' \<mapsto> Finite 5]) 0 ''USD'' ''BRL'' (Finite 10) fresh
     = (Inl (Error ''Invalid currency: USD''), fresh, [])
   \<and> getCurrencies codesUp fresh
     = (Inr [''USD'', ''BRL''], loaded, [''https://v6.exchangerate-api.com/v6//KEY//codes''])"
  by (simp add: convert_def getCurrencies_def fetchCurrencies_def net_defs example_defs)

section \<open>Failed fetches\<close>

text \<open>
  C4, as stated, fails: once a table for USD is cached, a later call whose fetch fails
  (the network is down, more than 3,600,000 ms after the first call) returns the cached
  table and not \<open>null\<close>, and \<open>convert\<close> returns a number.
\<close>

theorem fetchRates_failure_counterexample:
  "noSuccess (down (apiUrl cached ''/latest/USD''))
   \<and> fetchRates down 4000000 ''USD'' cached
       = (Inr (Some (Table [''BRL'' \<mapsto> Finite 5])), cached,
          [''https://v6.exchangerate-api.com/v6//KEY//latest/USD''])
   \<and> fst (convert es2023 down 4000000 ''USD'' ''BRL'' (Finite 10) cached)
       = Inr (Some (Finite 50))"
  by (simp add: convert_def fetchRates_def stale_def net_defs example_defs rates_defs
        mul_10_5 del: mul.simps)

lemma fetchApiData_noSuccess:
  assumes "noSuccess (net (apiUrl this e))"
  shows "fetchApiData net this e = (Inr None, [apiUrl this e])
         \<or> (\<exists>d. CurrencyData.result d \<noteq> ''success''
                 \<and> fetchApiData net this e = (Inr (Some d), [apiUrl this e]))"
proof (cases "net (apiUrl this e)")
  case FetchRejected
  then show ?thesis by (simp add: fetchApiData_def)
next
  case (Response ok st b)
  show ?thesis
  proof (cases b)
    case JsonRejected
    with Response assms show ?thesis by (simp add: fetchApiData_def)
  next
    case (JsonValue v)
    with Response assms show ?thesis
      by (cases v) (auto simp: fetchApiData_def split: if_splits)
  qed
qed

lemma fetchRates_noSuccess:
  assumes "noSuccess (net (apiUrl this (''/latest/'' @ base)))"
  shows "fst (fetchRates net now base this) = Inr (orNull (ratesGet this base))"
    and "fst (snd (fetchRates net now base this)) = this"
  using fetchApiData_noSuccess [where net = net and this = this and e = "''/latest/'' @ base"] assms
  by (auto simp: fetchRates_def Let_def)

text \<open>
  C4, amended: whenever the provider fetch fails with a network or HTTP error, or gives
  a falsy body or a \<open>result\<close> other than \<open>"success"\<close>, \<open>fetchRates(base)\<close> leaves the
  instance as it was and returns the rate table cached earlier for \<open>base\<close> if there is
  one; if nothing is found under \<open>base\<close> it returns \<open>null\<close>, and then
  \<open>convert(base, to, amount)\<close>, for \<open>base\<close> and \<open>to\<close> in the currency list, returns
  \<open>null\<close> and does not throw.
\<close>

theorem fetchRates_failure_returns_cache:
  assumes "noSuccess (net (apiUrl this (''/latest/'' @ base)))"
  shows "fst (snd (fetchRates net now base this)) = this
         \<and> (\<forall>t. rates this base = Some t
                \<longrightarrow> fst (fetchRates net now base this) = Inr (Some (Table t)))
         \<and> (ratesGet this base = None
              \<longrightarrow> fst (fetchRates net now base this) = Inr None
                  \<and> (base \<in> code ` set (currencies this) \<and> to \<in> code ` set (currencies this)
                       \<longrightarrow> fst (convert P net now base to amount this) = Inr None))"
proof -
  note fr = fetchRates_noSuccess [where net = net and this = this and base = base and now = now,
      OF assms]
  have own: "\<forall>t. rates this base = Some t
                \<longrightarrow> fst (fetchRates net now base this) = Inr (Some (Table t))"
    using fr(1) by (simp add: ratesGet_own orNull_def)
  have none: "ratesGet this base = None
              \<longrightarrow> fst (fetchRates net now base this) = Inr None
                  \<and> (base \<in> code ` set (currencies this) \<and> to \<in> code ` set (currencies this)
                       \<longrightarrow> fst (convert P net now base to amount this) = Inr None)"
  proof
    assume n: "ratesGet this base = None"
    obtain r this' q where f: "fetchRates net now base this = (r, this', q)"
      by (cases "fetchRates net now base this")
    with fr(1) n have r: "r = Inr None" by (simp add: orNull_def)
    with f show "fst (fetchRates net now base this) = Inr None
                  \<and> (base \<in> code ` set (currencies this) \<and> to \<in> code ` set (currencies this)
                       \<longrightarrow> fst (convert P net now base to amount this) = Inr None)"
      by (simp add: convert_def list_ex_code)
  qed
  from fr(2) own none show ?thesis by (intro conjI)
qed

theorem fetchRates_failure_returns_cache_witness:
  "noSuccess (down (apiUrl cached ''/latest/USD''))
   \<and> rates cached ''USD'' = Some [''BRL'' \<mapsto> Finite 5]
   \<and> fst (snd (fetchRates down 4000000 ''USD'' cached)) = cached
   \<and> fst (fetchRates down 4000000 ''USD'' cached) = Inr (Some (Table [''BRL'' \<mapsto> Finite 5]))
   \<and> noSuccess (down (apiUrl loaded ''/latest/USD''))
   \<and> ratesGet loaded ''USD'' = None
   \<and> fst (fetchRates down 0 ''USD'' loaded) = Inr None
   \<and> ''USD'' \<in> code ` set (currencies loaded) \<and> ''BRL'' \<in> code ` set (currencies loaded)
   \<and> fst (convert es2023 down 0 ''USD'' ''BRL'' (Finite 10) loaded) = Inr None"
proof -
  have n: "noSuccess (down (apiUrl cached (''/latest/'' @ ''USD'')))"
    "noSuccess (down (apiUrl loaded (''/latest/'' @ ''USD'')))"
    by (simp_all add: down_def)
  have c: "rates cached ''USD'' = Some [''BRL'' \<mapsto> Finite 5]"
    by (simp add: example_defs)
  have m: "ratesGet loaded ''USD'' = None" "''USD'' \<in> code ` set (currencies loaded)"
    "''BRL'' \<in> code ` set (currencies loaded)"
    by (simp_all add: example_defs rates_defs)
  show ?thesis
    using fetchRates_failure_returns_cache [where net = down and this = cached
        and base = "''USD''" and now = 4000000, OF n(1)]
      fetchRates_failure_returns_cache [where net = down and this = loaded
        and base = "''USD''" and now = 0 and to = "''BRL''" and amount = "Finite 10"
        and P = es2023, OF n(2)] c m
    by (simp add: down_def)
qed

text \<open>
  Two cases are left out of the amended statement. For a base that names a member of
  \<open>Object.prototype\<close>, a failed fetch with nothing cached returns that member, not
  \<open>null\<close>. And when the response is \<open>ok\<close> but its body is not JSON, the rejection of
  \<open>response.json()\<close> escapes the \<open>try\<close> of \<open>fetchApiData\<close>, and \<open>fetchRates\<close> and
  \<open>convert\<close> throw \<open>SyntaxError\<close> where the documentation of \<open>fetchApiData\<close> and
  \<open>fetchRates\<close> promises \<open>null\<close>.
\<close>

lemma fetchRates_inherited_member:
  "fetchRates down 0 ''constructor'' fresh
     = (Inr (Some (Member ''constructor'')), fresh,
        [''https://v6.exchangerate-api.com/v6//KEY//latest/constructor''])"
  by (simp add: fetchRates_def stale_def net_defs example_defs rates_defs)

lemma fetchRates_body_not_json:
  assumes "stale now this"
    and "net (apiUrl this (''/latest/'' @ base)) = Response True st JsonRejected"
  shows "fetchRates net now base this
           = (Inl SyntaxError, this, [apiUrl this (''/latest/'' @ base)])"
    and "base \<in> code ` set (currencies this) \<Longrightarrow> to \<in> code ` set (currencies this) \<Longrightarrow>
         convert P net now base to amount this
           = (Inl SyntaxError, this, [apiUrl this (''/latest/'' @ base)])"
  using assms by (simp_all add: convert_def fetchRates_def fetchApiData_def list_ex_code)

section \<open>Listing the currencies\<close>

text \<open>A listing call goes to the network exactly when the cached list is empty.\<close>

lemma fetchCurrencies_requests:
  "snd (snd (fetchCurrencies net this)) = [apiUrl this ''/codes'']"
proof -
  obtain x q where f: "fetchApiData net this ''/codes'' = (x, q)"
    by (cases "fetchApiData net this ''/codes''")
  then have "q = [apiUrl this ''/codes'']"
    using fetchApiData_requests [of net this "''/codes''"] by simp
  with f show ?thesis
    by (simp add: fetchCurrencies_def split: sum.splits option.splits)
qed

lemma listing_requests:
  "snd (listing_effect a net this)
     = (if currencies this = [] then [apiUrl this ''/codes''] else [])"
proof -
  obtain r this' q where f: "fetchCurrencies net this = (r, this', q)"
    by (cases "fetchCurrencies net this")
  then have "q = [apiUrl this ''/codes'']"
    using fetchCurrencies_requests [of net this] by simp
  with f show ?thesis
    by (cases a) (simp_all add: getCurrencies_def getCurrenciesWithNames_def split: sum.splits)
qed

lemma listing_loaded:
  "currencies this \<noteq> [] \<Longrightarrow> listing_effect a net this = (this, [])"
  by (cases a) (simp_all add: getCurrencies_def getCurrenciesWithNames_def)

text \<open>
  C6, as stated, fails: while the network is down, each of two consecutive listing calls
  on a fresh instance finds the list empty and fetches, two requests in all.
\<close>

theorem listing_twice_counterexample:
  "listing_effect GetCurrenciesWithNames down fresh
     = (fresh, [''https://v6.exchangerate-api.com/v6//KEY//codes''])
   \<and> length (snd (listing_effect GetCurrenciesWithNames down fresh)
             @ snd (listing_effect GetCurrenciesWithNames down
                      (fst (listing_effect GetCurrenciesWithNames down fresh)))) = 2"
  by (simp add: getCurrenciesWithNames_def fetchCurrencies_def net_defs example_defs)

text \<open>
  C6, amended: for two consecutive listing calls on one instance, if the cached list is
  not empty after the first call (it was populated before, or the first call's fetch
  succeeded with at least one code), then the second call requests nothing and leaves
  the instance alone, so at most one fetch of the supported-codes resource is performed
  across the two calls.
\<close>

theorem listing_twice_one_fetch:
  assumes "listing_effect a net1 this = (this1, q1)"
    and "listing_effect b net2 this1 = (this2, q2)"
    and "currencies this1 \<noteq> []"
  shows "length (q1 @ q2) \<le> 1 \<and> q2 = [] \<and> this2 = this1"
proof -
  have "q1 = (if currencies this = [] then [apiUrl this ''/codes''] else [])"
    using listing_requests [of a net1 this] assms(1) by simp
  then have "length q1 \<le> 1" by simp
  moreover have "this2 = this1 \<and> q2 = []"
    using listing_loaded [OF assms(3), of b net2] assms(2) by simp
  ultimately show ?thesis by simp
qed

theorem listing_twice_one_fetch_witness:
  "listing_effect GetCurrenciesWithNames codesUp fresh
     = (loaded, [''https://v6.exchangerate-api.com/v6//KEY//codes''])
   \<and> listing_effect GetCurrencies down loaded = (loaded, [])
   \<and> currencies loaded \<noteq> []
   \<and> length ([''https://v6.exchangerate-api.com/v6//KEY//codes''] @ []) \<le> 1"
proof -
  have f: "listing_effect GetCurrenciesWithNames codesUp fresh
     = (loaded, [''https://v6.exchangerate-api.com/v6//KEY//codes''])"
    by (simp add: getCurrenciesWithNames_def fetchCurrencies_def net_defs example_defs)
  have g: "listing_effect GetCurrencies down loaded = (loaded, [])"
    by (simp add: getCurrencies_def example_defs)
  have n: "currencies loaded \<noteq> []"
    by (simp add: example_defs)
  show ?thesis
    using listing_twice_one_fetch [OF f g n] f g n by simp
qed

section \<open>Formatting\<close>

text \<open>
  C8, as stated, fails: the currency code \<open>US\<close> is not empty, yet \<open>format(1, "US")\<close>
  on a formatter for \<open>pt-BR\<close> fails, with the \<open>RangeError\<close> that
  \<open>Intl.NumberFormat\<close> throws for a code that is not three letters. (The rendering
  function given here is never consulted.)
\<close>

theorem format_RangeError_counterexample:
  "''US'' \<noteq> []
   \<and> format (Intl_NumberFormat (\<lambda>l. l = ''pt-BR'') (\<lambda>l c v. c)) \<lparr>lang = ''pt-BR''\<rparr> (Finite 1) ''US''
       = Inl RangeError"
  by (simp add: format_def Intl_NumberFormat_def IsWellFormedCurrencyCode_def)

text \<open>
  C8, amended: \<open>format(value, currencyCode)\<close> fails with "Currency code is required."
  if and only if \<open>currencyCode\<close> is empty; for a non-empty code it returns the string
  that the platform renders exactly when the locale tag of the instance and the
  currency code are well formed, and fails with the platform's \<open>RangeError\<close> otherwise.
\<close>

theorem format_outcomes:
  "(format (Intl_NumberFormat wellFormedTag render) this v c
      = Inl (Error ''Currency code is required.'') \<longleftrightarrow> c = [])
   \<and> (format (Intl_NumberFormat wellFormedTag render) this v c = Inl RangeError
        \<longleftrightarrow> c \<noteq> [] \<and> \<not> (wellFormedTag (lang this) \<and> IsWellFormedCurrencyCode c))
   \<and> (format (Intl_NumberFormat wellFormedTag render) this v c = Inr (render (lang this) c v)
        \<longleftrightarrow> c \<noteq> [] \<and> wellFormedTag (lang this) \<and> IsWellFormedCurrencyCode c)"
  by (auto simp: format_def Intl_NumberFormat_def)

theorem format_outcomes_witness:
  "format (Intl_NumberFormat (\<lambda>l. l = ''pt-BR'') (\<lambda>l c v. c)) \<lparr>lang = ''pt-BR''\<rparr> (Finite 0) ''USD''
     = Inr ''USD''
   \<and> format (Intl_NumberFormat (\<lambda>l. l = ''pt-BR'') (\<lambda>l c v. c)) \<lparr>lang = ''pt-BR''\<rparr> (Finite 0) []
     = Inl (Error ''Currency code is required.'')"
  using format_outcomes [of "\<lambda>l. l = ''pt-BR''" "\<lambda>l c v. c" "\<lparr>lang = ''pt-BR''\<rparr>" "Finite 0" "''USD''"]
    format_outcomes [of "\<lambda>l. l = ''pt-BR''" "\<lambda>l c v. c" "\<lparr>lang = ''pt-BR''\<rparr>" "Finite 0" "[]"]
  by (simp add: IsWellFormedCurrencyCode_def isAsciiLetter_def)

text \<open>Whatever the platform's constructor does, \<open>format\<close> adds one failure of its own.\<close>

lemma format_any_platform:
  "format nf this v [] = Inl (Error ''Currency code is required.'')"
  "c \<noteq> [] \<Longrightarrow> nf (lang this) c = Inl e \<Longrightarrow> format nf this v c = Inl e"
  "c \<noteq> [] \<Longrightarrow> nf (lang this) c = Inr f \<Longrightarrow> format nf this v c = Inr (f v)"
  by (simp_all add: format_def)

lemma wf_USD: "IsWellFormedCurrencyCode ''USD''" "\<not> IsWellFormedCurrencyCode ''US1''"
  by (simp_all add: IsWellFormedCurrencyCode_def isAsciiLetter_def)

end
